theory Spec2Isabelle
  imports Main "HOL-Library.Sublist" "HOL-Library.Char_ord" "HOL-Library.List_Lexorder"
begin

section \<open>Strings\<close>

text \<open>
  Texts are sequences of code points; the model covers the 8-bit (Latin-1) range, where a
  \<^typ>\<open>char\<close> is one code point. Python's \<^verbatim>\<open>str.lower()\<close> maps, in that range, the
  letters A..Z and the capital letters 0xC0..0xDE (without the multiplication sign 0xD7) to
  the code point 32 above, and leaves every other code point alone.
\<close>

definition lower_char :: "char \<Rightarrow> char" where
  "lower_char c =
     (let n = (of_char c :: nat)
      in if (65 \<le> n \<and> n \<le> 90) \<or> (192 \<le> n \<and> n \<le> 222 \<and> n \<noteq> 215)
         then char_of (n + 32) else c)"

definition lower :: "string \<Rightarrow> string" where
  "lower t = map lower_char t"

text \<open>Python's \<^verbatim>\<open>s in t\<close> on strings: \<open>s\<close> occurs in \<open>t\<close> as a contiguous block.\<close>

definition str_in :: "string \<Rightarrow> string \<Rightarrow> bool" where
  "str_in s t = sublist s t"

section \<open>The skill vocabulary and the matcher\<close>

definition COMMON_SKILLS :: "string list" where
  "COMMON_SKILLS =
     [''python'', ''java'', ''javascript'', ''react'', ''next.js'',
      ''node.js'', ''fastapi'', ''sql'', ''mysql'', ''postgresql'',
      ''mongodb'', ''aws'', ''docker'', ''kubernetes'',
      ''git'', ''github'', ''rest api'', ''html'', ''css'',
      ''flutter'', ''dart'',
      ''machine learning'', ''data analysis'']"

definition extract_skills :: "string \<Rightarrow> string list" where
  "extract_skills text = (let t = lower text in filter (\<lambda>s. str_in s t) COMMON_SKILLS)"

section \<open>Double-precision arithmetic of the scorer\<close>

text \<open>
  \<^verbatim>\<open>int((matched / len(jd_skills)) * 100)\<close> divides two integers into a double, multiplies
  the double by 100 and truncates. Both operations return the double nearest to the exact
  result, ties to the even significand. A non-negative double is modelled exactly, as a
  pair \<open>(m, k)\<close> standing for \<open>m / 2 ^ k\<close>. The values of the scorer lie between 0 and 100,
  and a quotient \<open>1 / n\<close> is far above the subnormal range for every list length \<open>n\<close> that
  fits in memory, so neither overflow nor gradual underflow is part of the model.
\<close>

type_synonym dyadic = "int \<times> nat"

function bitlen :: "int \<Rightarrow> nat" where
  "bitlen n = (if n \<le> 0 then 0 else Suc (bitlen (n div 2)))"
  by pat_completeness auto
termination
  by (relation "measure nat") auto

declare bitlen.simps [simp del]

text \<open>The integer nearest to \<open>a / b\<close>, ties to even.\<close>

definition round_half_even :: "int \<Rightarrow> int \<Rightarrow> int" where
  "round_half_even a b =
     (let q = a div b; r = a mod b
      in if 2 * r < b then q
         else if b < 2 * r then q + 1
         else if even q then q else q + 1)"

text \<open>
  The double nearest to \<open>a / b\<close> (for \<open>0 \<le> a\<close>, \<open>0 < b\<close> and \<open>a / b < 2 ^ 53\<close>): the scale
  \<open>k\<close> is chosen so that \<open>a * 2 ^ k / b\<close> has a 53-bit integer part, which is then rounded.
\<close>

definition fl_round :: "int \<Rightarrow> int \<Rightarrow> dyadic" where
  "fl_round a b =
     (if a = 0 then (0, 0)
      else let k0 = (52 + bitlen b) - bitlen a;
               k = (if a * 2 ^ k0 div b < 2 ^ 52 then k0 + 1 else k0)
           in (round_half_even (a * 2 ^ k) b, k))"

text \<open>\<^verbatim>\<open>a / b\<close> on two Python integers (true division, correctly rounded).\<close>

definition fdiv :: "int \<Rightarrow> int \<Rightarrow> dyadic" where
  "fdiv a b = fl_round a b"

text \<open>\<^verbatim>\<open>x * c\<close> for a double \<open>x\<close> and a small integer \<open>c\<close> (converted to a double exactly).\<close>

definition fmul :: "dyadic \<Rightarrow> int \<Rightarrow> dyadic" where
  "fmul x c = (case x of (m, k) \<Rightarrow> fl_round (m * c) (2 ^ k))"

text \<open>\<^verbatim>\<open>int(x)\<close> on a non-negative double: truncation.\<close>

definition float_to_int :: "dyadic \<Rightarrow> int" where
  "float_to_int x = (case x of (m, k) \<Rightarrow> m div 2 ^ k)"

section \<open>The scorer\<close>

definition matched_count :: "string \<Rightarrow> string list \<Rightarrow> nat" where
  "matched_count resume_text jd_skills =
     (let rt = lower resume_text in length (filter (\<lambda>s. str_in s rt) jd_skills))"

definition ats_keyword_score :: "string \<Rightarrow> string list \<Rightarrow> int" where
  "ats_keyword_score resume_text jd_skills =
     (if jd_skills = [] then 0
      else float_to_int
             (fmul (fdiv (int (matched_count resume_text jd_skills)) (int (length jd_skills))) 100))"

section \<open>The critique call\<close>

text \<open>Python's \<^verbatim>\<open>str.strip()\<close>: the white space of the 8-bit range is removed at both ends.\<close>

definition is_space :: "char \<Rightarrow> bool" where
  "is_space c =
     (let n = (of_char c :: nat)
      in (9 \<le> n \<and> n \<le> 13) \<or> (28 \<le> n \<and> n \<le> 32) \<or> n = 133 \<or> n = 160)"

definition strip :: "string \<Rightarrow> string" where
  "strip s = rev (dropWhile is_space (rev (dropWhile is_space s)))"

text \<open>An exception, with the text that \<^verbatim>\<open>str(e)\<close> gives.\<close>

datatype py_exception = Exception string

text \<open>
  What \<^verbatim>\<open>requests.post\<close> does with a request: it raises (network failure, timeout), or it
  returns a response with a status code, a body text and, behind
  \<^verbatim>\<open>response.json()["choices"][0]["message"]["content"]\<close>, either a string or an exception
  (a body that is not JSON, a missing key, an empty list).
\<close>

datatype http_result =
    HttpRaises string
  | HttpResponse int string "py_exception + string"

text \<open>What the program does to the outside world, in the order it does it.\<close>

datatype effect =
    WriteTemp string
  | ExtractPdf
  | ExtractDocx
  | UpdateDocx string
  | CritiquePost string

text \<open>
  The environment of a request: the configured key, the critique service (its answer to
  the user message posted), and the document libraries.
\<close>

record world =
  OPENROUTER_API_KEY :: "string option"
  requests_post :: "string \<Rightarrow> http_result"
  pdf_pages :: "string \<Rightarrow> py_exception + string option list"
  docx_paragraphs :: "string \<Rightarrow> py_exception + string list"
  update_docx_resume :: "string \<Rightarrow> string \<Rightarrow> py_exception + string"

text \<open>\<^verbatim>\<open>not OPENROUTER_API_KEY\<close>: the variable is unset or empty.\<close>

definition key_missing :: "world \<Rightarrow> bool" where
  "key_missing w = (case OPENROUTER_API_KEY w of None \<Rightarrow> True | Some k \<Rightarrow> k = [])"

text \<open>The body of the \<^verbatim>\<open>try\<close> block: an exception raised inside it is the value \<open>Inl\<close>.\<close>

definition openrouter_request :: "world \<Rightarrow> string \<Rightarrow> py_exception + string" where
  "openrouter_request w safe_prompt =
     (case requests_post w safe_prompt of
        HttpRaises e \<Rightarrow> Inl (Exception e)
      | HttpResponse status_code body content \<Rightarrow>
          if status_code \<noteq> 200 then Inr (''OpenRouter error: '' @ body)
          else (case content of
                  Inl e \<Rightarrow> Inl e
                | Inr c \<Rightarrow> Inr (strip c)))"

definition openrouter_think :: "world \<Rightarrow> string \<Rightarrow> effect list \<times> (py_exception + string)" where
  "openrouter_think w prompt =
     (if key_missing w then ([], Inr ''AI analysis unavailable (API key not configured).'')
      else let safe_prompt = take 3000 prompt
           in ([CritiquePost safe_prompt],
               case openrouter_request w safe_prompt of
                 Inl (Exception e) \<Rightarrow> Inr (''AI error: '' @ e)
               | Inr answer \<Rightarrow> Inr answer))"

section \<open>The prompt\<close>

fun digits :: "nat \<Rightarrow> string" where
  "digits n =
     (if n < 10 then [char_of (48 + n)]
      else digits (n div 10) @ [char_of (48 + n mod 10)])"

declare digits.simps [simp del]

text \<open>\<^verbatim>\<open>str(i)\<close> on an integer.\<close>

definition str_int :: "int \<Rightarrow> string" where
  "str_int i = (if i < 0 then CHR ''-'' # digits (nat (- i)) else digits (nat i))"

text \<open>\<^verbatim>\<open>sep.join(xs)\<close>.\<close>

fun join :: "string \<Rightarrow> string list \<Rightarrow> string" where
  "join sep [] = []"
| "join sep [x] = x"
| "join sep (x # y # ys) = x @ sep @ join sep (y # ys)"

text \<open>\<^verbatim>\<open>', '.join(xs) or 'None'\<close>: the empty string is falsy.\<close>

definition join_or_none :: "string list \<Rightarrow> string" where
  "join_or_none xs = (let j = join '', '' xs in if j = [] then ''None'' else j)"

definition nl :: string where
  "nl = [CHR 0x0A]"

definition build_prompt :: "string \<Rightarrow> string \<Rightarrow> int \<Rightarrow> string list \<Rightarrow> string list \<Rightarrow> string" where
  "build_prompt resume_text job_description score matched missing =
     nl @ ''Job Description:'' @ nl
     @ take 800 job_description @ nl
     @ nl
     @ ''Resume:'' @ nl
     @ take 800 resume_text @ nl
     @ nl
     @ ''ATS Score: '' @ str_int score @ ''%'' @ nl
     @ nl
     @ ''Matched Skills: '' @ join_or_none matched @ nl
     @ ''Missing Skills: '' @ join_or_none missing @ nl
     @ nl
     @ ''Answer as a hiring manager:'' @ nl
     @ ''1. Why is the ATS score this value?'' @ nl
     @ ''2. Resume weaknesses.'' @ nl
     @ ''3. Skills to prioritize.'' @ nl
     @ ''4. Real projects to build for this role.'' @ nl
     @ ''5. A realistic 60-day improvement plan.'' @ nl"

text \<open>The dictionary returned has the one key \<^verbatim>\<open>analysis_text\<close>; the model returns its value.\<close>

definition ai_analysis ::
  "world \<Rightarrow> string \<Rightarrow> string \<Rightarrow> int \<Rightarrow> string list \<Rightarrow> string list
     \<Rightarrow> effect list \<times> (py_exception + string)" where
  "ai_analysis w resume_text job_description score matched missing =
     openrouter_think w (build_prompt resume_text job_description score matched missing)"

section \<open>Text extraction\<close>

text \<open>\<^verbatim>\<open>page.extract_text() or ""\<close> for each page, concatenated and stripped.\<close>

definition extract_text_from_pdf :: "world \<Rightarrow> string \<Rightarrow> py_exception + string" where
  "extract_text_from_pdf w doc =
     (case pdf_pages w doc of
        Inl e \<Rightarrow> Inl e
      | Inr pages \<Rightarrow>
          Inr (strip (concat (map (\<lambda>p. case p of None \<Rightarrow> [] | Some t \<Rightarrow> t) pages))))"

definition extract_text_from_docx :: "world \<Rightarrow> string \<Rightarrow> py_exception + string" where
  "extract_text_from_docx w doc =
     (case docx_paragraphs w doc of
        Inl e \<Rightarrow> Inl e
      | Inr ps \<Rightarrow> Inr (strip (join nl ps)))"

section \<open>The report\<close>

text \<open>\<^verbatim>\<open>sorted(set(resume_skills) & set(jd_skills))\<close> and \<^verbatim>\<open>sorted(set(jd_skills) - set(resume_skills))\<close>.\<close>

definition matched_of :: "string list \<Rightarrow> string list \<Rightarrow> string list" where
  "matched_of resume_skills jd_skills =
     sorted_list_of_set (set resume_skills \<inter> set jd_skills)"

definition missing_of :: "string list \<Rightarrow> string list \<Rightarrow> string list" where
  "missing_of resume_skills jd_skills =
     sorted_list_of_set (set jd_skills - set resume_skills)"

text \<open>
  \<^verbatim>\<open>{s: (100 if s in matched else 0) for s in jd_skills}\<close>: the keys are stored in the order
  of \<open>jd_skills\<close>, a later occurrence of a key overwriting the earlier one.
\<close>

definition skill_scores_of :: "string list \<Rightarrow> string list \<Rightarrow> (string \<rightharpoonup> int)" where
  "skill_scores_of jd_skills matched =
     fold (\<lambda>s d. d(s \<mapsto> (if s \<in> set matched then 100 else 0))) jd_skills Map.empty"

section \<open>The endpoint\<close>

text \<open>\<^verbatim>\<open>s.split(d)\<close> for a one-character separator: never the empty list.\<close>

fun split_on :: "char \<Rightarrow> string \<Rightarrow> string list" where
  "split_on d [] = [[]]"
| "split_on d (c # cs) =
     (if c = d then [] # split_on d cs
      else (case split_on d cs of
              [] \<Rightarrow> [[c]]
            | x # xs \<Rightarrow> (c # x) # xs))"

text \<open>\<^verbatim>\<open>resume.filename.split(".")[-1].lower()\<close>.\<close>

definition file_suffix :: "string \<Rightarrow> string" where
  "file_suffix filename = lower (last (split_on CHR ''.'' filename))"

record upload =
  filename :: string
  content :: string

record report =
  score :: int
  matched_skills :: "string list"
  missing_skills :: "string list"
  skill_scores :: "string \<rightharpoonup> int"
  ai_analysis_text :: string
  download_id :: "string option"

datatype response = ErrorResult string | Report report

text \<open>
  The handler. An exception of a library call leaves it (the value \<open>Inl\<close>), with the
  effects done until then.
\<close>

definition analyze_resume ::
  "world \<Rightarrow> upload \<Rightarrow> string \<Rightarrow> effect list \<times> (py_exception + response)" where
  "analyze_resume w resume job_description =
     (let suffix = file_suffix (filename resume)
      in if suffix \<notin> set [''pdf'', ''docx''] then ([], Inr (ErrorResult ''Only PDF and DOCX supported''))
         else
           let fx1 = [WriteTemp (''.'' @ suffix)];
               fx2 = fx1 @ [if suffix = ''pdf'' then ExtractPdf else ExtractDocx]
           in case (if suffix = ''pdf'' then extract_text_from_pdf w (content resume)
                    else extract_text_from_docx w (content resume)) of
                Inl e \<Rightarrow> (fx2, Inl e)
              | Inr resume_text \<Rightarrow>
                  let resume_skills = extract_skills resume_text;
                      jd_skills = extract_skills job_description;
                      matched = matched_of resume_skills jd_skills;
                      missing = missing_of resume_skills jd_skills;
                      sc = ats_keyword_score resume_text jd_skills;
                      scores = skill_scores_of jd_skills matched;
                      summary = ''Results-driven candidate aligned with job requirements.'';
                      fx3 = fx2 @ (if suffix = ''docx'' then [UpdateDocx summary] else [])
                  in (case (if suffix = ''docx''
                           then map_sum id Some (update_docx_resume w (content resume) summary)
                           else Inr None) of
                       Inl e \<Rightarrow> (fx3, Inl e)
                     | Inr did \<Rightarrow>
                         (let r = ai_analysis w resume_text job_description sc matched missing
                          in (fx3 @ fst r,
                              case snd r of
                                Inl e \<Rightarrow> Inl e
                              | Inr ai_result \<Rightarrow>
                                  Inr (Report \<lparr>score = sc, matched_skills = matched,
                                              missing_skills = missing, skill_scores = scores,
                                              ai_analysis_text = ai_result,
                                              download_id = did\<rparr>)))))"

section \<open>Reference definitions\<close>

text \<open>
  The specification's wording of the scorer, to compare the code with: a skill counts when
  it occurs in the text with case ignored on both sides, and the percentage is rounded to
  the nearest integer.
\<close>

definition occurs_case_insensitively :: "string \<Rightarrow> string \<Rightarrow> bool" where
  "occurs_case_insensitively s t = sublist (lower s) (lower t)"

definition spec_matched_count :: "string \<Rightarrow> string list \<Rightarrow> nat" where
  "spec_matched_count t js = length (filter (\<lambda>s. occurs_case_insensitively s t) js)"

definition spec_score :: "string \<Rightarrow> string list \<Rightarrow> int" where
  "spec_score t js = round_half_even (100 * int (spec_matched_count t js)) (int (length js))"

text \<open>The double-precision score of \<open>m\<close> matches out of \<open>n\<close> is the integer quotient.\<close>

definition floor_agrees :: "int \<Rightarrow> int \<Rightarrow> bool" where
  "floor_agrees n m = (float_to_int (fmul (fdiv m n) 100) = (100 * m) div n)"

text \<open>The user messages posted to the critique service, among the effects of a run.\<close>

definition posted :: "effect list \<Rightarrow> string list" where
  "posted fx = concat (map (\<lambda>e. case e of CritiquePost c \<Rightarrow> [c] | _ \<Rightarrow> []) fx)"

text \<open>A sample environment: no key, a service that cannot be reached.\<close>

definition offline :: world where
  "offline = \<lparr>OPENROUTER_API_KEY = None,
              requests_post = (\<lambda>p. HttpRaises ''Connection refused''),
              pdf_pages = (\<lambda>d. Inr [Some d]),
              docx_paragraphs = (\<lambda>d. Inr [d]),
              update_docx_resume = (\<lambda>d s. Inr ''0000'')\<rparr>"

section \<open>Facts about the vocabulary and the matcher\<close>

lemma vocabulary_lower: "list_all (\<lambda>s. lower s = s) COMMON_SKILLS"
  by code_simp

lemma vocabulary_distinct: "distinct COMMON_SKILLS"
  by code_simp

lemma vocabulary_length: "length COMMON_SKILLS = 23"
  by (simp add: COMMON_SKILLS_def)

lemma extract_skills_empty: "extract_skills [] = []"
  by code_simp

lemma set_extract_skills:
  "set (extract_skills t) = {s \<in> set COMMON_SKILLS. str_in s (lower t)}"
  by (simp add: extract_skills_def)

lemma matched_count_card:
  assumes "distinct jd_skills" "set jd_skills \<subseteq> set COMMON_SKILLS"
  shows "matched_count resume_text jd_skills
           = card (set (extract_skills resume_text) \<inter> set jd_skills)"
proof -
  have "set (extract_skills resume_text) \<inter> set jd_skills
        = set (filter (\<lambda>s. str_in s (lower resume_text)) jd_skills)"
    using assms(2) by (auto simp: set_extract_skills)
  moreover have "distinct (filter (\<lambda>s. str_in s (lower resume_text)) jd_skills)"
    using assms(1) by simp
  ultimately have "card (set (extract_skills resume_text) \<inter> set jd_skills)
        = length (filter (\<lambda>s. str_in s (lower resume_text)) jd_skills)"
    using distinct_card by metis
  then show ?thesis
    by (simp add: matched_count_def)
qed

lemma extract_skills_distinct: "distinct (extract_skills t)"
  using vocabulary_distinct by (simp add: extract_skills_def)

lemma extract_skills_subset: "set (extract_skills t) \<subseteq> set COMMON_SKILLS"
  by (simp add: extract_skills_def)

section \<open>Facts about the double-precision score\<close>

lemma round_half_even_le:
  assumes "0 < b" "a \<le> c * b"
  shows "round_half_even a b \<le> c"
proof (cases "a = c * b")
  case True
  with assms show ?thesis by (simp add: round_half_even_def)
next
  case False
  with assms have "a < c * b" by simp
  have "a div b < c"
  proof (rule ccontr)
    assume "\<not> a div b < c"
    then have "c * b \<le> a div b * b"
      using assms(1) by (intro mult_right_mono) simp_all
    also have "a div b * b = a - a mod b"
      by (simp add: minus_mod_eq_div_mult)
    also have "\<dots> \<le> a"
      using assms(1) by simp
    finally show False using \<open>a < c * b\<close> by simp
  qed
  then show ?thesis by (simp add: round_half_even_def Let_def)
qed

lemma round_half_even_nonneg:
  assumes "0 < b" "0 \<le> a"
  shows "0 \<le> round_half_even a b"
  using assms by (simp add: round_half_even_def Let_def pos_imp_zdiv_nonneg_iff)

lemma fl_round_bounds:
  assumes "0 < b" "0 \<le> a" "a \<le> c * b" "0 \<le> c"
  shows "0 \<le> fst (fl_round a b) \<and> fst (fl_round a b) \<le> c * 2 ^ snd (fl_round a b)"
proof (cases "a = 0")
  case True
  with assms show ?thesis by (simp add: fl_round_def)
next
  case False
  have le: "round_half_even (a * 2 ^ k) b \<le> c * 2 ^ k" for k
  proof (rule round_half_even_le [OF assms(1)])
    have "a * 2 ^ k \<le> (c * b) * 2 ^ k"
      using assms(3) by (rule mult_right_mono) simp
    then show "a * 2 ^ k \<le> c * 2 ^ k * b" by (simp add: ac_simps)
  qed
  have ge: "0 \<le> round_half_even (a * 2 ^ k) b" for k
    using assms by (intro round_half_even_nonneg) simp_all
  from False show ?thesis
    by (simp add: fl_round_def Let_def le ge)
qed

lemma score_arith_bounds:
  assumes "0 \<le> m" "m \<le> n" "0 < n"
  shows "0 \<le> float_to_int (fmul (fdiv m n) 100) \<and> float_to_int (fmul (fdiv m n) 100) \<le> 100"
proof -
  obtain q k where qk: "fdiv m n = (q, k)" by (cases "fdiv m n")
  have "0 \<le> fst (fl_round m n) \<and> fst (fl_round m n) \<le> 1 * 2 ^ snd (fl_round m n)"
    using assms by (intro fl_round_bounds) simp_all
  with qk have q: "0 \<le> q" "q \<le> 2 ^ k" by (simp_all add: fdiv_def)
  obtain p j where pj: "fl_round (q * 100) (2 ^ k) = (p, j)" by (cases "fl_round (q * 100) (2 ^ k)")
  have "0 \<le> fst (fl_round (q * 100) (2 ^ k)) \<and>
        fst (fl_round (q * 100) (2 ^ k)) \<le> 100 * 2 ^ snd (fl_round (q * 100) (2 ^ k))"
    using q by (intro fl_round_bounds) simp_all
  with pj have p: "0 \<le> p" "p \<le> 100 * 2 ^ j" by simp_all
  have "p div 2 ^ j \<le> (100 * 2 ^ j) div 2 ^ j"
    using p(2) by (intro zdiv_mono1) simp_all
  then have "p div 2 ^ j \<le> 100" by simp
  moreover have "0 \<le> p div 2 ^ j"
    using p(1) by (simp add: pos_imp_zdiv_nonneg_iff)
  ultimately show ?thesis
    by (simp add: qk fmul_def pj float_to_int_def)
qed

lemma matched_count_le: "matched_count t js \<le> length js"
  by (simp add: matched_count_def)

text \<open>
  The truncated double product is the integer quotient for every total up to 49, checked
  total by total; at 50 it is not: \<open>29 / 50 * 100\<close> is a double just below 58.
\<close>

lemma floor_agrees_1_23: "list_all (\<lambda>n. list_all (floor_agrees n) [0..n]) [1..23]"
  by code_simp

lemma floor_agrees_24_30: "list_all (\<lambda>n. list_all (floor_agrees n) [0..n]) [24..30]"
  by code_simp

lemma floor_agrees_31_36: "list_all (\<lambda>n. list_all (floor_agrees n) [0..n]) [31..36]"
  by code_simp

lemma floor_agrees_37_41: "list_all (\<lambda>n. list_all (floor_agrees n) [0..n]) [37..41]"
  by code_simp

lemma floor_agrees_42_45: "list_all (\<lambda>n. list_all (floor_agrees n) [0..n]) [42..45]"
  by code_simp

lemma floor_agrees_46_49: "list_all (\<lambda>n. list_all (floor_agrees n) [0..n]) [46..49]"
  by code_simp

lemma floor_agrees_upto_49:
  assumes "1 \<le> n" "n \<le> 49" "0 \<le> m" "m \<le> n"
  shows "floor_agrees n m"
proof -
  have m: "m \<in> set [0..n]" using assms by simp
  consider "n \<in> set [1..23]" | "n \<in> set [24..30]" | "n \<in> set [31..36]"
    | "n \<in> set [37..41]" | "n \<in> set [42..45]" | "n \<in> set [46..49]"
    using assms(1,2) unfolding set_upto atLeastAtMost_iff by linarith
  then have "list_all (floor_agrees n) [0..n]"
  proof cases
    case 1
    with floor_agrees_1_23 show ?thesis unfolding list_all_iff by blast
  next
    case 2
    with floor_agrees_24_30 show ?thesis unfolding list_all_iff by blast
  next
    case 3
    with floor_agrees_31_36 show ?thesis unfolding list_all_iff by blast
  next
    case 4
    with floor_agrees_37_41 show ?thesis unfolding list_all_iff by blast
  next
    case 5
    with floor_agrees_42_45 show ?thesis unfolding list_all_iff by blast
  next
    case 6
    with floor_agrees_46_49 show ?thesis unfolding list_all_iff by blast
  qed
  with m show ?thesis unfolding list_all_iff by blast
qed

lemma floor_disagrees_at_50: "float_to_int (fmul (fdiv 29 50) 100) = 57"
  by code_simp

lemma skill_scores_fold:
  "fold (\<lambda>s d. d(s \<mapsto> f s)) js d0 = (\<lambda>k. if k \<in> set js then Some (f k) else d0 k)"
  by (induction js arbitrary: d0) (auto simp: fun_eq_iff)

section \<open>The claims\<close>

text \<open>
  C1, as stated: the score is \<open>round(matched_count / total * 100)\<close>. It fails: with two of
  three target skills in the resume the code returns 66, the rounded percentage is 67.
\<close>

theorem score_round_counterexample:
  "ats_keyword_score ''aws docker'' [''aws'', ''docker'', ''kubernetes''] = 66
   \<and> spec_score ''aws docker'' [''aws'', ''docker'', ''kubernetes''] = 67"
  by code_simp

text \<open>
  C1, amended: for every resume text and every non-empty target skill list of at most 49
  entries (a list extracted from a job description has at most 23, the size of the
  vocabulary), the score is the percentage \<open>matched_count * 100 / total\<close> truncated to an
  integer, where \<open>matched_count\<close> counts the target skills that are substrings of the
  lower-cased resume text; one skill of three gives 33.
\<close>

theorem score_floor:
  assumes "jd_skills \<noteq> []" "length jd_skills \<le> 49"
  shows "ats_keyword_score resume_text jd_skills
         = (100 * int (length (filter (\<lambda>s. sublist s (lower resume_text)) jd_skills)))
             div int (length jd_skills)"
proof -
  let ?m = "int (matched_count resume_text jd_skills)"
  let ?n = "int (length jd_skills)"
  have "1 \<le> ?n" using assms(1) by (cases jd_skills) simp_all
  moreover have "?n \<le> 49" using assms(2) by simp
  moreover have "?m \<le> ?n" using matched_count_le by simp
  ultimately have "floor_agrees ?n ?m"
    by (intro floor_agrees_upto_49) simp_all
  then show ?thesis
    using assms(1) by (simp add: floor_agrees_def ats_keyword_score_def matched_count_def str_in_def)
qed

theorem score_floor_witness:
  "[''aws'', ''docker'', ''kubernetes''] \<noteq> []
   \<and> length [''aws'', ''docker'', ''kubernetes''] \<le> 49
   \<and> ats_keyword_score ''docker'' [''aws'', ''docker'', ''kubernetes''] = 33"
proof -
  have c: "length (filter (\<lambda>s. sublist s (lower ''docker'')) [''aws'', ''docker'', ''kubernetes'']) = 1"
    by code_simp
  show ?thesis
    using score_floor [of "[''aws'', ''docker'', ''kubernetes'']" "''docker''"] c by simp
qed

text \<open>
  C2, as stated: the matcher's result is sorted ascending. It fails: the result keeps the
  vocabulary's order, in which \<open>python\<close> comes before \<open>java\<close>.
\<close>

theorem matcher_sorted_counterexample:
  "\<not> sorted (extract_skills ''python java'')"
  by code_simp

text \<open>
  C2, amended: for every text, the matcher returns the matched skills in the vocabulary's
  order, each once (a subsequence of the vocabulary); the sorting is done by the report
  assembler, whose matched and missing lists are sorted ascending.
\<close>

theorem matcher_vocabulary_order:
  "subseq (extract_skills text) COMMON_SKILLS
   \<and> distinct (extract_skills text)
   \<and> sorted (matched_of (extract_skills resume_text) (extract_skills job_description))
   \<and> sorted (missing_of (extract_skills resume_text) (extract_skills job_description))"
  using vocabulary_distinct
  by (simp add: extract_skills_def matched_of_def missing_of_def)

text \<open>
  C3: for every resume skill list and job-description skill list, the matched and missing
  lists partition the job-description skill set: their union is that set and they share
  no element.
\<close>

theorem matched_missing_partition:
  "set (matched_of resume_skills jd_skills) \<union> set (missing_of resume_skills jd_skills) = set jd_skills
   \<and> set (matched_of resume_skills jd_skills) \<inter> set (missing_of resume_skills jd_skills) = {}"
  by (auto simp: matched_of_def missing_of_def)

text \<open>
  C4: for every text, the matcher returns exactly the vocabulary entries that occur in the
  text with case ignored; so its result is a subset of the vocabulary, and the empty text
  gives the empty result.
\<close>

theorem matcher_exact:
  "extract_skills text = filter (\<lambda>s. occurs_case_insensitively s text) COMMON_SKILLS
   \<and> set (extract_skills text) \<subseteq> set COMMON_SKILLS
   \<and> extract_skills [] = []"
proof -
  have "filter (\<lambda>s. str_in s (lower text)) COMMON_SKILLS
        = filter (\<lambda>s. occurs_case_insensitively s text) COMMON_SKILLS"
    using vocabulary_lower
    by (intro filter_cong) (auto simp: list_all_iff str_in_def occurs_case_insensitively_def)
  then have "extract_skills text = filter (\<lambda>s. occurs_case_insensitively s text) COMMON_SKILLS"
    by (simp add: extract_skills_def)
  moreover have "set (extract_skills text) \<subseteq> set COMMON_SKILLS"
    by (simp add: extract_skills_def)
  ultimately show ?thesis
    using extract_skills_empty by blast
qed

text \<open>
  C5: the scorer's count of matches, taken from the resume text itself, is the size of the
  matched set, taken from the skills extracted from the resume: for every resume text and
  every target skill list extracted from a job description, the count equals the cardinality
  of the intersection of the extracted resume skills with the target skills, which is also
  the length of the matched list of the report.
\<close>

theorem score_parity:
  "matched_count resume_text (extract_skills job_description)
     = card (set (extract_skills resume_text) \<inter> set (extract_skills job_description))
   \<and> matched_count resume_text (extract_skills job_description)
     = length (matched_of (extract_skills resume_text) (extract_skills job_description))"
proof -
  have "matched_count resume_text (extract_skills job_description)
     = card (set (extract_skills resume_text) \<inter> set (extract_skills job_description))"
    using extract_skills_distinct extract_skills_subset by (rule matched_count_card)
  then show ?thesis
    by (simp add: matched_of_def)
qed

text \<open>
  C6: for every resume text and target skill list, the score is an integer between 0 and
  100, and it is 0 for the empty target skill list.
\<close>

theorem score_range:
  "0 \<le> ats_keyword_score resume_text jd_skills
   \<and> ats_keyword_score resume_text jd_skills \<le> 100
   \<and> ats_keyword_score resume_text [] = 0"
proof (cases "jd_skills = []")
  case True
  then show ?thesis by (simp add: ats_keyword_score_def)
next
  case False
  then have "0 < int (length jd_skills)" by simp
  moreover have "int (matched_count resume_text jd_skills) \<le> int (length jd_skills)"
    using matched_count_le by simp
  ultimately show ?thesis
    using score_arith_bounds [of "int (matched_count resume_text jd_skills)" "int (length jd_skills)"]
    by (simp add: ats_keyword_score_def)
qed

text \<open>
  C7: for every resume skill list and job-description skill list, the keys of the per-skill
  score map are exactly the job-description skills, and each is mapped to 100 if it is in
  the matched list and to 0 otherwise.
\<close>

theorem skill_scores_map:
  "dom (skill_scores_of jd_skills (matched_of resume_skills jd_skills)) = set jd_skills
   \<and> (\<forall>s \<in> set jd_skills.
        skill_scores_of jd_skills (matched_of resume_skills jd_skills) s
          = Some (if s \<in> set (matched_of resume_skills jd_skills) then 100 else 0))"
  by (auto simp: skill_scores_of_def skill_scores_fold dom_def)

theorem skill_scores_map_witness:
  "''aws'' \<in> set [''aws'', ''sql'']
   \<and> skill_scores_of [''aws'', ''sql''] (matched_of [''aws'', ''git''] [''aws'', ''sql'']) ''aws''
       = Some 100
   \<and> ''sql'' \<in> set [''aws'', ''sql'']
   \<and> skill_scores_of [''aws'', ''sql''] (matched_of [''aws'', ''git''] [''aws'', ''sql'']) ''sql''
       = Some 0"
proof -
  have m: "matched_of [''aws'', ''git''] [''aws'', ''sql''] = [''aws'']"
    by code_simp
  show ?thesis
    using skill_scores_map [of "[''aws'', ''sql'']" "[''aws'', ''git'']"]
    unfolding m by simp
qed

text \<open>
  C8: the critique call always returns a string: the fixed placeholder when the key is
  missing, and an explanatory string when the service answers with a status other than 200
  or when the request or the decoding of the answer raises.
\<close>

theorem critique_never_raises:
  "(\<exists>answer. snd (openrouter_think w prompt) = Inr answer)
   \<and> (key_missing w \<longrightarrow>
        snd (openrouter_think w prompt) = Inr ''AI analysis unavailable (API key not configured).'')
   \<and> (\<not> key_missing w \<longrightarrow> requests_post w (take 3000 prompt) = HttpResponse status body c
        \<longrightarrow> status \<noteq> 200
        \<longrightarrow> snd (openrouter_think w prompt) = Inr (''OpenRouter error: '' @ body))
   \<and> (\<not> key_missing w \<longrightarrow> requests_post w (take 3000 prompt) = HttpRaises e
        \<longrightarrow> snd (openrouter_think w prompt) = Inr (''AI error: '' @ e))
   \<and> (\<not> key_missing w \<longrightarrow> requests_post w (take 3000 prompt) = HttpResponse 200 body (Inl (Exception e))
        \<longrightarrow> snd (openrouter_think w prompt) = Inr (''AI error: '' @ e))"
  by (auto simp: openrouter_think_def openrouter_request_def Let_def
           split: http_result.splits sum.splits py_exception.splits)

theorem critique_never_raises_witness:
  "key_missing offline
   \<and> snd (openrouter_think offline ''hello'') = Inr ''AI analysis unavailable (API key not configured).''
   \<and> \<not> key_missing (offline\<lparr>OPENROUTER_API_KEY := Some ''sk''\<rparr>)
   \<and> snd (openrouter_think (offline\<lparr>OPENROUTER_API_KEY := Some ''sk''\<rparr>) ''hello'')
       = Inr ''AI error: Connection refused''
   \<and> snd (openrouter_think (offline\<lparr>OPENROUTER_API_KEY := Some ''sk'',
                                     requests_post := (\<lambda>p. HttpResponse 429 ''busy'' (Inr ''x''))\<rparr>) ''hello'')
       = Inr ''OpenRouter error: busy''
   \<and> snd (openrouter_think (offline\<lparr>OPENROUTER_API_KEY := Some ''sk'',
                                     requests_post := (\<lambda>p. HttpResponse 200 ''{}'' (Inl (Exception ''choices'')))\<rparr>) ''hello'')
       = Inr ''AI error: choices''"
proof -
  let ?w1 = "offline\<lparr>OPENROUTER_API_KEY := Some ''sk''\<rparr>"
  let ?w2 = "offline\<lparr>OPENROUTER_API_KEY := Some ''sk'',
                     requests_post := (\<lambda>p. HttpResponse 429 ''busy'' (Inr ''x''))\<rparr>"
  let ?w3 = "offline\<lparr>OPENROUTER_API_KEY := Some ''sk'',
                     requests_post := (\<lambda>p. HttpResponse 200 ''{}'' (Inl (Exception ''choices'')))\<rparr>"
  have k0: "key_missing offline" by (simp add: key_missing_def offline_def)
  have k1: "\<not> key_missing ?w1" by (simp add: key_missing_def)
  have k2: "\<not> key_missing ?w2" by (simp add: key_missing_def)
  have k3: "\<not> key_missing ?w3" by (simp add: key_missing_def)
  have p1: "requests_post ?w1 (take 3000 ''hello'') = HttpRaises ''Connection refused''"
    by (simp add: offline_def)
  have p2: "requests_post ?w2 (take 3000 ''hello'') = HttpResponse 429 ''busy'' (Inr ''x'')"
    by simp
  have p3: "requests_post ?w3 (take 3000 ''hello'') = HttpResponse 200 ''{}'' (Inl (Exception ''choices''))"
    by simp
  show ?thesis
    using critique_never_raises [of offline "''hello''"]
          critique_never_raises [of ?w1 "''hello''" _ _ _ "''Connection refused''"]
          critique_never_raises [of ?w2 "''hello''" 429 "''busy''" "Inr ''x''"]
          critique_never_raises [of ?w3 "''hello''" _ "''{}''" _ "''choices''"]
          k0 k1 k2 k3 p1 p2 p3
    by simp
qed

text \<open>
  C9: for every upload whose lower-cased last dot-separated part of the file name is neither
  \<open>pdf\<close> nor \<open>docx\<close>, the handler returns the error record, with no effect on the outside:
  no extraction, no score, no critique call.
\<close>

theorem unsupported_file_type:
  assumes "file_suffix (filename resume) \<noteq> ''pdf''" "file_suffix (filename resume) \<noteq> ''docx''"
  shows "analyze_resume w resume job_description
           = ([], Inr (ErrorResult ''Only PDF and DOCX supported''))"
  using assms by (simp add: analyze_resume_def)

theorem unsupported_file_type_witness:
  "file_suffix (filename \<lparr>filename = ''cv.final.TXT'', content = ''abc''\<rparr>) \<noteq> ''pdf''
   \<and> file_suffix (filename \<lparr>filename = ''cv.final.TXT'', content = ''abc''\<rparr>) \<noteq> ''docx''
   \<and> analyze_resume offline \<lparr>filename = ''cv.final.TXT'', content = ''abc''\<rparr> ''need aws''
       = ([], Inr (ErrorResult ''Only PDF and DOCX supported''))"
proof -
  have s: "file_suffix ''cv.final.TXT'' = ''txt''" by code_simp
  show ?thesis
    using unsupported_file_type [of "\<lparr>filename = ''cv.final.TXT'', content = ''abc''\<rparr>" offline "''need aws''"] s
    by simp
qed

text \<open>
  C10: the prompt holds the first 800 characters of the job description and of the resume
  text and nothing else of them, and the message posted to the critique service is the
  first 3000 characters of the prompt.
\<close>

theorem prompt_bounded:
  "build_prompt resume_text job_description sc matched missing
     = build_prompt (take 800 resume_text) (take 800 job_description) sc matched missing
   \<and> posted (fst (ai_analysis w resume_text job_description sc matched missing))
       = (if key_missing w then []
          else [take 3000 (build_prompt (take 800 resume_text) (take 800 job_description)
                             sc matched missing)])
   \<and> list_all (\<lambda>c. length c \<le> 3000)
        (posted (fst (ai_analysis w resume_text job_description sc matched missing)))
   \<and> ai_analysis w resume_text job_description sc matched missing
       = ai_analysis w (take 800 resume_text) (take 800 job_description) sc matched missing"
proof -
  have b: "build_prompt resume_text job_description sc matched missing
     = build_prompt (take 800 resume_text) (take 800 job_description) sc matched missing"
    by (simp add: build_prompt_def)
  have p: "posted (fst (ai_analysis w r j sc matched missing))
       = (if key_missing w then [] else [take 3000 (build_prompt r j sc matched missing)])" for r j
    by (simp add: ai_analysis_def openrouter_think_def posted_def Let_def)
  have a: "ai_analysis w resume_text job_description sc matched missing
       = ai_analysis w (take 800 resume_text) (take 800 job_description) sc matched missing"
    unfolding ai_analysis_def using b by simp
  show ?thesis
    using b a by (simp add: p)
qed

end
